theory Spec2Isabelle
  imports Complex_Main
begin

section \<open>Values exchanged with the backend\<close>

text \<open>
  The server (\<^verbatim>\<open>prometheus_mcp_server/server.py\<close>) handles what \<^verbatim>\<open>response.json()\<close>
  returns: \<^verbatim>\<open>None\<close>, booleans, numbers, strings, lists and dictionaries. A dictionary is
  an association list in which the first binding of a key is the one that counts. Strings
  are byte strings: text outside ASCII is its UTF-8 encoding, and numbers are integers.
\<close>

datatype json =
    JNull
  | JBool bool
  | JNum int
  | JStr string
  | JList "json list"
  | JObj "(string \<times> json) list"

text \<open>
  A message of an exception: a literal, or an f-string \<^verbatim>\<open>f"<literal>{value}"\<close> whose
  interpolated value is kept as it is.
\<close>

datatype pymsg = Plain string | FString string json

datatype exn =
    ValueError pymsg
  | HTTPError int
  | RequestException string
  | JSONDecodeError string
  | KeyError string
  | TypeError
  | AttributeError

text \<open>\<^verbatim>\<open>str(e)\<close> of \<^verbatim>\<open>ValueError(msg)\<close>, given where the interpolated value is a string,
  \<^verbatim>\<open>None\<close> or a boolean; the text of a number or of a container is not rendered.\<close>

fun msg_text :: "pymsg \<Rightarrow> string option" where
  "msg_text (Plain s) = Some s"
| "msg_text (FString p (JStr s)) = Some (p @ s)"
| "msg_text (FString p JNull) = Some (p @ ''None'')"
| "msg_text (FString p (JBool b)) = Some (p @ (if b then ''True'' else ''False''))"
| "msg_text (FString p v) = None"

subsection \<open>Python's operations on these values\<close>

text \<open>\<^verbatim>\<open>d[k] = v\<close> on an insertion-ordered dictionary.\<close>

primrec dict_set :: "'k \<Rightarrow> 'v \<Rightarrow> ('k \<times> 'v) list \<Rightarrow> ('k \<times> 'v) list" where
  "dict_set k v [] = [(k, v)]"
| "dict_set k v (p # ps) = (if fst p = k then (k, v) # ps else p # dict_set k v ps)"

text \<open>\<^verbatim>\<open>d.update(other)\<close>: the bindings of \<^verbatim>\<open>other\<close> are stored one after the other.\<close>

definition dict_update :: "('k \<times> 'v) list \<Rightarrow> ('k \<times> 'v) list \<Rightarrow> ('k \<times> 'v) list" where
  "dict_update d other = fold (\<lambda>(k, v). dict_set k v) other d"

text \<open>\<^verbatim>\<open>x[k]\<close> with a string key.\<close>

fun py_getitem :: "json \<Rightarrow> string \<Rightarrow> exn + json" where
  "py_getitem (JObj kvs) k = (case map_of kvs k of None \<Rightarrow> Inl (KeyError k) | Some v \<Rightarrow> Inr v)"
| "py_getitem v k = Inl TypeError"

text \<open>\<^verbatim>\<open>d.get(k, default)\<close> on a dictionary.\<close>

definition dict_get :: "(string \<times> json) list \<Rightarrow> string \<Rightarrow> json \<Rightarrow> json" where
  "dict_get kvs k dflt = (case map_of kvs k of None \<Rightarrow> dflt | Some v \<Rightarrow> v)"

text \<open>\<^verbatim>\<open>s.rstrip('/')\<close>.\<close>

definition rstrip_slash :: "string \<Rightarrow> string" where
  "rstrip_slash s = rev (dropWhile (\<lambda>c. c = CHR ''/'') (rev s))"

text \<open>Sequencing of computations that may raise.\<close>

definition and_then :: "exn + 'a \<Rightarrow> ('a \<Rightarrow> exn + 'b) \<Rightarrow> exn + 'b" where
  "and_then r f = (case r of Inl e \<Rightarrow> Inl e | Inr v \<Rightarrow> f v)"

section \<open>Configuration\<close>

record mcp_server_config =
  mcp_server_transport :: string
  mcp_bind_host :: string
  mcp_bind_port :: int

record prometheus_config =
  url :: string
  url_ssl_verify :: bool
  disable_prometheus_links :: bool
  username :: "string option"
  password :: "string option"
  token :: "string option"
  org_id :: "string option"
  mcp_server_config :: "mcp_server_config option"
  custom_headers :: "(string \<times> string) list option"

text \<open>Truth value of an optional string: \<^verbatim>\<open>None\<close> and \<^verbatim>\<open>""\<close> are false.\<close>

fun truthy :: "string option \<Rightarrow> bool" where
  "truthy None = False"
| "truthy (Some s) = (s \<noteq> [])"

section \<open>Request Gateway\<close>

datatype auth = TokenHeaders "(string \<times> string) list" | HTTPBasicAuth string string

definition get_prometheus_auth :: "prometheus_config \<Rightarrow> auth option" where
  "get_prometheus_auth config =
     (if truthy (token config)
      then Some (TokenHeaders [(''Authorization'', ''Bearer '' @ the (token config))])
      else if truthy (username config) \<and> truthy (password config)
      then Some (HTTPBasicAuth (the (username config)) (the (password config)))
      else None)"

text \<open>The arguments of \<^verbatim>\<open>requests.get\<close>.\<close>

record request =
  req_url :: string
  req_params :: "(string \<times> string) list option"
  req_auth :: "(string \<times> string) option"
  req_headers :: "(string \<times> string) list"
  req_verify :: bool

text \<open>What the HTTP call gives back: it raises, or it returns a status code and a body on
  which \<^verbatim>\<open>response.json()\<close> either raises or returns the decoded value.\<close>

datatype body = Undecodable exn | JSON json

datatype response = Failed string | Response int body

type_synonym backend = "request \<Rightarrow> response"

text \<open>Lines 162 to 176 of \<^verbatim>\<open>make_prometheus_request\<close>: the URL, the authentication and
  the headers.\<close>

definition build_request ::
  "prometheus_config \<Rightarrow> string \<Rightarrow> (string \<times> string) list option \<Rightarrow> request" where
  "build_request config endpoint params =
     (let url' = rstrip_slash (url config) @ ''/api/v1/'' @ endpoint;
          auth0 = get_prometheus_auth config;
          headers0 = (case auth0 of Some (TokenHeaders h) \<Rightarrow> dict_update [] h | _ \<Rightarrow> []);
          auth1 = (case auth0 of Some (HTTPBasicAuth u p) \<Rightarrow> Some (u, p) | _ \<Rightarrow> None);
          headers1 = (if truthy (org_id config)
                      then dict_set ''X-Scope-OrgID'' (the (org_id config)) headers0
                      else headers0);
          headers2 = (case custom_headers config of
                        None \<Rightarrow> headers1
                      | Some ch \<Rightarrow> if ch = [] then headers1 else dict_update headers1 ch)
      in \<lparr>req_url = url', req_params = params, req_auth = auth1,
          req_headers = headers2, req_verify = url_ssl_verify config\<rparr>)"

text \<open>The \<^verbatim>\<open>except\<close> clauses of \<^verbatim>\<open>make_prometheus_request\<close>, in their order.\<close>

fun reraise :: "exn \<Rightarrow> exn" where
  "reraise (RequestException m) = RequestException m"
| "reraise (HTTPError c) = HTTPError c"
| "reraise (JSONDecodeError d) =
     ValueError (Plain (''Invalid JSON response from Prometheus: '' @ d))"
| "reraise e = e"

text \<open>The body of the \<^verbatim>\<open>try\<close>, from the answer of \<^verbatim>\<open>requests.get\<close> on.\<close>

definition read_response :: "response \<Rightarrow> exn + json" where
  "read_response r =
     (case r of
        Failed m \<Rightarrow> Inl (RequestException m)
      | Response code b \<Rightarrow>
          if 400 \<le> code \<and> code < 600 then Inl (HTTPError code)
          else (case b of
                  Undecodable e \<Rightarrow> Inl e
                | JSON result \<Rightarrow>
                    and_then (py_getitem result ''status'') (\<lambda>st.
                      if st \<noteq> JStr ''success''
                      then (case result of
                              JObj kvs \<Rightarrow> Inl (ValueError (FString ''Prometheus API error: ''
                                            (dict_get kvs ''error'' (JStr ''Unknown error''))))
                            | _ \<Rightarrow> Inl AttributeError)
                      else py_getitem result ''data'')))"

text \<open>The state the handlers share and the effects they leave: the module's cache
  (\<^verbatim>\<open>_metrics_cache\<close>, whose \<^verbatim>\<open>data\<close> is \<^verbatim>\<open>None\<close> at start), the calls made to the gateway, the
  HTTP requests sent, and the ticks the progress reporter received.\<close>

record tick =
  tick_progress :: int
  tick_total :: int
  tick_message :: string

record state =
  cache_data :: json
  cache_timestamp :: real
  gateway_calls :: "(string \<times> (string \<times> string) list option) list"
  http_requests :: "request list"
  ticks :: "tick list"

definition initial_state :: state where
  "initial_state = \<lparr>cache_data = JNull, cache_timestamp = 0, gateway_calls = [],
                     http_requests = [], ticks = []\<rparr>"

definition make_prometheus_request ::
  "prometheus_config \<Rightarrow> backend \<Rightarrow> string \<Rightarrow> (string \<times> string) list option \<Rightarrow> state
     \<Rightarrow> (exn + json) \<times> state" where
  "make_prometheus_request config backend endpoint params s =
     (let s1 = s\<lparr>gateway_calls := gateway_calls s @ [(endpoint, params)]\<rparr>
      in if url config = []
         then (Inl (ValueError (Plain
                 ''Prometheus configuration is missing. Please set PROMETHEUS_URL environment variable.'')),
               s1)
         else
           (let req = build_request config endpoint params;
                s2 = s1\<lparr>http_requests := http_requests s1 @ [req]\<rparr>
            in (case read_response (backend req) of
                  Inl e \<Rightarrow> (Inl (reraise e), s2)
                | Inr v \<Rightarrow> (Inr v, s2))))"


section \<open>More of Python's operations\<close>

text \<open>The keys of a dictionary, in the order of their first insertion.\<close>

fun dict_keys :: "('k \<times> 'v) list \<Rightarrow> 'k list" where
  "dict_keys [] = []"
| "dict_keys (p # ps) = fst p # filter (\<lambda>k. k \<noteq> fst p) (dict_keys ps)"

text \<open>\<^verbatim>\<open>len(x)\<close>.\<close>

fun py_len :: "json \<Rightarrow> exn + nat" where
  "py_len (JStr s) = Inr (length s)"
| "py_len (JList xs) = Inr (length xs)"
| "py_len (JObj kvs) = Inr (length (dict_keys kvs))"
| "py_len v = Inl TypeError"

text \<open>\<^verbatim>\<open>for m in x\<close>: the elements of a list, the keys of a dictionary, the characters of a
  string.\<close>

fun py_iter :: "json \<Rightarrow> exn + json list" where
  "py_iter (JList xs) = Inr xs"
| "py_iter (JObj kvs) = Inr (map JStr (dict_keys kvs))"
| "py_iter (JStr s) = Inr (map (\<lambda>c. JStr [c]) s)"
| "py_iter v = Inl TypeError"

text \<open>\<^verbatim>\<open>s.lower()\<close> on ASCII text.\<close>

definition lower_char :: "char \<Rightarrow> char" where
  "lower_char c =
     (let n = (of_char c :: nat) in if 65 \<le> n \<and> n \<le> 90 then char_of (n + 32) else c)"

definition lower :: "string \<Rightarrow> string" where
  "lower s = map lower_char s"

text \<open>\<^verbatim>\<open>m.lower()\<close> on a value: only a string has the method.\<close>

fun py_lower :: "json \<Rightarrow> exn + string" where
  "py_lower (JStr s) = Inr (lower s)"
| "py_lower v = Inl AttributeError"

text \<open>\<^verbatim>\<open>sub in s\<close> on strings.\<close>

fun starts_with :: "string \<Rightarrow> string \<Rightarrow> bool" where
  "starts_with [] s = True"
| "starts_with (p # ps) [] = False"
| "starts_with (p # ps) (c # cs) = (p = c \<and> starts_with ps cs)"

fun str_contains :: "string \<Rightarrow> string \<Rightarrow> bool" where
  "str_contains sub [] = (sub = [])"
| "str_contains sub (c # cs) = (starts_with sub (c # cs) \<or> str_contains sub cs)"

text \<open>\<^verbatim>\<open>k in x\<close> with a string \<^verbatim>\<open>k\<close>: a key of a dictionary, an element of a list, a substring
  of a string.\<close>

fun py_contains :: "string \<Rightarrow> json \<Rightarrow> exn + bool" where
  "py_contains k (JObj kvs) = Inr (k \<in> set (map fst kvs))"
| "py_contains k (JList xs) = Inr (JStr k \<in> set xs)"
| "py_contains k (JStr s) = Inr (str_contains k s)"
| "py_contains k v = Inl TypeError"

text \<open>\<^verbatim>\<open>xs[start:end]\<close>: a negative bound counts from the end, and every bound is brought
  into the range of the sequence.\<close>

definition slice_bound :: "nat \<Rightarrow> int \<Rightarrow> nat" where
  "slice_bound n i = (if i < 0 then nat (max 0 (int n + i)) else min n (nat i))"

definition slice :: "'a list \<Rightarrow> int \<Rightarrow> int \<Rightarrow> 'a list" where
  "slice xs start stop =
     (let a = slice_bound (length xs) start; b = slice_bound (length xs) stop
      in take (b - a) (drop a xs))"

text \<open>Slicing a value: a dictionary has no slices, and the subscript raises.\<close>

fun py_slice :: "json \<Rightarrow> int \<Rightarrow> int \<Rightarrow> exn + json" where
  "py_slice (JList xs) start stop = Inr (JList (slice xs start stop))"
| "py_slice (JStr s) start stop = Inr (JStr (slice s start stop))"
| "py_slice v start stop = Inl TypeError"

text \<open>\<^verbatim>\<open>str(n)\<close> of an integer, and \<^verbatim>\<open>int(x)\<close> of a float, which cuts the fraction off.\<close>

definition digit_char :: "nat \<Rightarrow> char" where
  "digit_char n = char_of (48 + n)"

fun str_nat :: "nat \<Rightarrow> string" where
  "str_nat n = (if n < 10 then [digit_char n] else str_nat (n div 10) @ [digit_char (n mod 10)])"

declare str_nat.simps [simp del]

definition str_int :: "int \<Rightarrow> string" where
  "str_int i = (if i < 0 then ''-'' @ str_nat (nat (- i)) else str_nat (nat i))"

definition int_of_float :: "real \<Rightarrow> int" where
  "int_of_float x = (if 0 \<le> x then \<lfloor>x\<rfloor> else \<lceil>x\<rceil>)"

text \<open>\<^verbatim>\<open>urllib.parse.urlencode\<close> of a dictionary of strings: every key and value goes
  through \<^verbatim>\<open>quote_plus\<close>.\<close>

definition hex_digit :: "nat \<Rightarrow> char" where
  "hex_digit n = (if n < 10 then char_of (48 + n) else char_of (55 + n))"

definition always_safe :: "char \<Rightarrow> bool" where
  "always_safe c =
     (let n = (of_char c :: nat)
      in (65 \<le> n \<and> n \<le> 90) \<or> (97 \<le> n \<and> n \<le> 122) \<or> (48 \<le> n \<and> n \<le> 57)
         \<or> c \<in> set ''_.-~'')"

definition quote_plus_char :: "char \<Rightarrow> string" where
  "quote_plus_char c =
     (if always_safe c then [c]
      else if c = CHR '' '' then ''+''
      else [CHR ''%'', hex_digit (of_char c div 16), hex_digit (of_char c mod 16)])"

definition quote_plus :: "string \<Rightarrow> string" where
  "quote_plus s = concat (map quote_plus_char s)"

fun join_amp :: "string list \<Rightarrow> string" where
  "join_amp [] = []"
| "join_amp [x] = x"
| "join_amp (x # y # ys) = x @ ''&'' @ join_amp (y # ys)"

definition urlencode :: "(string \<times> string) list \<Rightarrow> string" where
  "urlencode query = join_amp (map (\<lambda>(k, v). quote_plus k @ ''='' @ quote_plus v) query)"

section \<open>Metrics name cache\<close>

definition CACHE_TTL :: real where
  "CACHE_TTL = 300"

text \<open>The test at the head of \<^verbatim>\<open>get_cached_metrics\<close>.\<close>

definition cache_valid :: "state \<Rightarrow> real \<Rightarrow> bool" where
  "cache_valid s current_time =
     (cache_data s \<noteq> JNull \<and> current_time - cache_timestamp s < CACHE_TTL)"

text \<open>The body of its \<^verbatim>\<open>try\<close>: the request, the two assignments, and the logging call
  that takes \<^verbatim>\<open>len(data)\<close>.\<close>

definition fetch_fresh ::
  "prometheus_config \<Rightarrow> backend \<Rightarrow> real \<Rightarrow> state \<Rightarrow> (exn + json) \<times> state" where
  "fetch_fresh config backend current_time s =
     (case make_prometheus_request config backend ''label/__name__/values'' None s of
        (Inl e, s1) \<Rightarrow> (Inl e, s1)
      | (Inr data, s1) \<Rightarrow>
          (let s2 = s1\<lparr>cache_data := data, cache_timestamp := current_time\<rparr>
           in (case py_len data of Inl e \<Rightarrow> (Inl e, s2) | Inr n \<Rightarrow> (Inr data, s2))))"

definition get_cached_metrics ::
  "prometheus_config \<Rightarrow> backend \<Rightarrow> real \<Rightarrow> state \<Rightarrow> (exn + json) \<times> state" where
  "get_cached_metrics config backend current_time s =
     (if cache_valid s current_time then (Inr (cache_data s), s)
      else (case fetch_fresh config backend current_time s of
              (Inr data, s') \<Rightarrow> (Inr data, s')
            | (Inl e, s') \<Rightarrow>
                (Inr (if cache_data s' \<noteq> JNull then cache_data s' else JList []), s')))"


section \<open>Tool handlers\<close>

text \<open>\<^verbatim>\<open>if ctx: await ctx.report_progress(progress=p, total=100, message=m)\<close>; the flag says
  whether the caller supplied a reporter.\<close>

definition report_progress :: "bool \<Rightarrow> int \<Rightarrow> string \<Rightarrow> state \<Rightarrow> state" where
  "report_progress ctx p m s =
     (if ctx then s\<lparr>ticks := ticks s @ [\<lparr>tick_progress = p, tick_total = 100, tick_message = m\<rparr>]\<rparr>
      else s)"

text \<open>The two accented letters of the messages, in UTF-8.\<close>

definition i_acute :: string where
  "i_acute = [CHR 0xC3, CHR 0xAD]"

definition e_acute :: string where
  "e_acute = [CHR 0xC3, CHR 0xA9]"

subsection \<open>Instant and range queries\<close>

record link =
  href :: string
  rel :: string
  title :: string

record query_result =
  resultType :: json
  result :: json
  links :: "link list option"

text \<open>The result dictionary of both query handlers, from the payload of the gateway and
  the parameters of the link to the backend's graph page.\<close>

definition query_result_of ::
  "prometheus_config \<Rightarrow> json \<Rightarrow> (string \<times> string) list \<Rightarrow> exn + query_result" where
  "query_result_of config data ui_params =
     and_then (py_getitem data ''resultType'') (\<lambda>rt.
     and_then (py_getitem data ''result'') (\<lambda>res.
       Inr \<lparr>resultType = rt, result = res,
            links = (if \<not> disable_prometheus_links config
                     then Some [\<lparr>href = rstrip_slash (url config) @ ''/graph?'' @ urlencode ui_params,
                                 rel = ''prometheus-ui'', title = ''Ver no Prometheus UI''\<rparr>]
                     else None)\<rparr>))"

definition execute_query ::
  "prometheus_config \<Rightarrow> backend \<Rightarrow> string \<Rightarrow> string option \<Rightarrow> state
     \<Rightarrow> (exn + query_result) \<times> state" where
  "execute_query config backend query time s =
     (let params = (if truthy time then [(''query'', query), (''time'', the time)]
                    else [(''query'', query)])
      in (case make_prometheus_request config backend ''query'' (Some params) s of
            (Inl e, s1) \<Rightarrow> (Inl e, s1)
          | (Inr data, s1) \<Rightarrow>
              (query_result_of config data
                 (if truthy time
                  then [(''g0.expr'', query), (''g0.tab'', ''0''), (''g0.moment_input'', the time)]
                  else [(''g0.expr'', query), (''g0.tab'', ''0'')]),
               s1)))"

definition execute_range_query ::
  "prometheus_config \<Rightarrow> backend \<Rightarrow> string \<Rightarrow> string \<Rightarrow> string \<Rightarrow> string \<Rightarrow> bool \<Rightarrow> state
     \<Rightarrow> (exn + query_result) \<times> state" where
  "execute_range_query config backend query start end' step ctx s =
     (let params = [(''query'', query), (''start'', start), (''end'', end'), (''step'', step)];
          s0 = report_progress ctx 0 (''Iniciando consulta de per'' @ i_acute @ ''odo...'') s
      in (case make_prometheus_request config backend ''query_range'' (Some params) s0 of
            (Inl e, s1) \<Rightarrow> (Inl e, s1)
          | (Inr data, s1) \<Rightarrow>
              (let s2 = report_progress ctx 50 ''Processando resultados da consulta...'' s1
               in (case query_result_of config data
                          [(''g0.expr'', query), (''g0.tab'', ''0''),
                           (''g0.range_input'', start @ '' to '' @ end'),
                           (''g0.step_input'', step)] of
                     Inl e \<Rightarrow> (Inl e, s2)
                   | Inr r \<Rightarrow>
                       (Inr r, report_progress ctx 100
                                 (''Consulta de per'' @ i_acute @ ''odo conclu'' @ i_acute @ ''da'') s2)))))"

subsection \<open>Listing and searching metric names\<close>

record metric_page =
  metrics :: json
  total_count :: int
  returned_count :: int
  offset :: int
  has_more :: bool

text \<open>\<^verbatim>\<open>[m for m in data if term in m.lower()]\<close>, over the elements \<^verbatim>\<open>data\<close> yields.\<close>

fun filter_names :: "string \<Rightarrow> json list \<Rightarrow> exn + json list" where
  "filter_names term [] = Inr []"
| "filter_names term (m # ms) =
     and_then (py_lower m) (\<lambda>lm.
     and_then (filter_names term ms) (\<lambda>rest.
       Inr (if str_contains term lm then m # rest else rest)))"

text \<open>The pagination both handlers apply: the count, the two indices, the slice and the
  result dictionary.\<close>

definition paginate :: "json \<Rightarrow> int option \<Rightarrow> int \<Rightarrow> exn + metric_page" where
  "paginate data limit offs =
     and_then (py_len data) (\<lambda>total.
       let start_idx = offs;
           end_idx = (case limit of Some l \<Rightarrow> offs + l | None \<Rightarrow> int total)
       in and_then (py_slice data start_idx end_idx) (\<lambda>paginated.
          and_then (py_len paginated) (\<lambda>returned.
            Inr \<lparr>metrics = paginated, total_count = int total,
                 returned_count = int returned, offset = offs,
                 has_more = (end_idx < int total)\<rparr>)))"

definition list_metrics ::
  "prometheus_config \<Rightarrow> backend \<Rightarrow> int option \<Rightarrow> int \<Rightarrow> string option \<Rightarrow> bool \<Rightarrow> state
     \<Rightarrow> (exn + metric_page) \<times> state" where
  "list_metrics config backend limit offs filter_pattern ctx s =
     (let s0 = report_progress ctx 0 (''Buscando lista de m'' @ e_acute @ ''tricas...'') s
      in (case make_prometheus_request config backend ''label/__name__/values'' None s0 of
            (Inl e, s1) \<Rightarrow> (Inl e, s1)
          | (Inr data, s1) \<Rightarrow>
              (case (if ctx then py_len data else Inr 0) of
                 Inl e \<Rightarrow> (Inl e, s1)
               | Inr n \<Rightarrow>
                   (let s2 = report_progress ctx 50
                               (''Processando '' @ str_nat n @ '' m'' @ e_acute @ ''tricas...'') s1
                    in (case (if truthy filter_pattern
                              then and_then (py_iter data) (\<lambda>ms.
                                   and_then (filter_names (lower (the filter_pattern)) ms) (\<lambda>xs.
                                     Inr (JList xs)))
                              else Inr data) of
                          Inl e \<Rightarrow> (Inl e, s2)
                        | Inr data' \<Rightarrow>
                            (case paginate data' limit offs of
                               Inl e \<Rightarrow> (Inl e, s2)
                             | Inr r \<Rightarrow>
                                 (Inr r, report_progress ctx 100
                                           (''Obtidas '' @ str_int (returned_count r) @ '' de ''
                                            @ str_int (total_count r) @ '' m'' @ e_acute @ ''tricas'')
                                           s2)))))))"

definition search_metrics ::
  "prometheus_config \<Rightarrow> backend \<Rightarrow> real \<Rightarrow> string \<Rightarrow> int option \<Rightarrow> int \<Rightarrow> bool \<Rightarrow> state
     \<Rightarrow> (exn + metric_page) \<times> state" where
  "search_metrics config backend current_time prefix limit offs ctx s =
     (let s0 = report_progress ctx 0 (''Buscando m'' @ e_acute @ ''tricas...'') s
      in (case get_cached_metrics config backend current_time s0 of
            (Inl e, s1) \<Rightarrow> (Inl e, s1)
          | (Inr data, s1) \<Rightarrow>
              (case and_then (py_iter data) (filter_names (lower prefix)) of
                 Inl e \<Rightarrow> (Inl e, s1)
               | Inr filtered \<Rightarrow>
                   (case paginate (JList filtered) limit offs of
                      Inl e \<Rightarrow> (Inl e, s1)
                    | Inr r \<Rightarrow>
                        (Inr r, report_progress ctx 100
                                  (''Encontradas '' @ str_int (returned_count r) @ '' de ''
                                   @ str_int (total_count r) @ '' m'' @ e_acute @ ''tricas'')
                                  s1)))))"

subsection \<open>Metric metadata\<close>

definition get_metric_metadata ::
  "prometheus_config \<Rightarrow> backend \<Rightarrow> string \<Rightarrow> state \<Rightarrow> (exn + json) \<times> state" where
  "get_metric_metadata config backend metric s =
     (case make_prometheus_request config backend (''metadata?metric='' @ metric) None s of
        (Inl e, s1) \<Rightarrow> (Inl e, s1)
      | (Inr data, s1) \<Rightarrow>
          (and_then (py_contains ''metadata'' data) (\<lambda>has_metadata.
           and_then (if has_metadata then py_getitem data ''metadata''
                     else and_then (py_contains ''data'' data) (\<lambda>has_data.
                          if has_data then py_getitem data ''data'' else Inr data)) (\<lambda>metadata.
             let metadata' = (case metadata of JObj kvs \<Rightarrow> JList [metadata] | _ \<Rightarrow> metadata)
             in and_then (py_len metadata') (\<lambda>n. Inr metadata'))),
           s1))"

subsection \<open>Health check\<close>

text \<open>The values of the health dictionary; \<^verbatim>\<open>HErr e\<close> stands for the string \<^verbatim>\<open>str(e)\<close>.\<close>

datatype hval = HStr string | HBool bool | HErr exn | HDict "(string \<times> hval) list"

text \<open>The body of the outer \<^verbatim>\<open>try\<close>. The clock is read twice: \<^verbatim>\<open>utcnow\<close> is the ISO text of
  \<^verbatim>\<open>datetime.utcnow()\<close> and \<^verbatim>\<open>now\<close> is \<^verbatim>\<open>time.time()\<close>. The handler of the outer \<^verbatim>\<open>try\<close>, in
  \<^verbatim>\<open>health_check\<close> below, stamps its dictionary with the same text.\<close>

definition health_check_body ::
  "prometheus_config \<Rightarrow> backend \<Rightarrow> string \<Rightarrow> real \<Rightarrow> state
     \<Rightarrow> (exn + (string \<times> hval) list) \<times> state" where
  "health_check_body config backend utcnow now s =
     (let health_status =
            [(''status'', HStr ''healthy''),
             (''service'', HStr ''prometheus-mcp-server''),
             (''version'', HStr ''1.5.0''),
             (''timestamp'', HStr utcnow),
             (''transport'', HStr (case mcp_server_config config of
                                     Some m \<Rightarrow> mcp_server_transport m | None \<Rightarrow> ''stdio'')),
             (''configuration'', HDict
                [(''prometheus_url_configured'', HBool (url config \<noteq> [])),
                 (''authentication_configured'',
                    HBool (truthy (username config) \<or> truthy (token config))),
                 (''org_id_configured'', HBool (truthy (org_id config)))])]
      in if url config \<noteq> []
         then (case make_prometheus_request config backend ''query''
                      (Some [(''query'', ''up''), (''time'', str_int (int_of_float now))]) s of
                 (Inr data, s1) \<Rightarrow>
                   (Inr (dict_set ''prometheus_url'' (HStr (url config))
                          (dict_set ''prometheus_connectivity'' (HStr ''healthy'') health_status)),
                    s1)
               | (Inl e, s1) \<Rightarrow>
                   (Inr (dict_set ''status'' (HStr ''degraded'')
                          (dict_set ''prometheus_error'' (HErr e)
                            (dict_set ''prometheus_connectivity'' (HStr ''unhealthy'')
                               health_status))),
                    s1))
         else (Inr (dict_set ''error'' (HStr ''PROMETHEUS_URL not configured'')
                      (dict_set ''status'' (HStr ''unhealthy'') health_status)),
               s))"

definition health_check ::
  "prometheus_config \<Rightarrow> backend \<Rightarrow> string \<Rightarrow> real \<Rightarrow> state
     \<Rightarrow> (exn + (string \<times> hval) list) \<times> state" where
  "health_check config backend utcnow now s =
     (case health_check_body config backend utcnow now s of
        (Inr health_status, s1) \<Rightarrow> (Inr health_status, s1)
      | (Inl e, s1) \<Rightarrow>
          (Inr [(''status'', HStr ''unhealthy''),
                (''service'', HStr ''prometheus-mcp-server''),
                (''error'', HErr e),
                (''timestamp'', HStr utcnow)],
           s1))"


section \<open>The specification's words, and example inputs\<close>

text \<open>The names that remain after the filter of the specification: a case-insensitive
  substring test when a pattern is given.\<close>

definition spec_filter :: "string option \<Rightarrow> string list \<Rightarrow> string list" where
  "spec_filter pattern names =
     (case pattern of None \<Rightarrow> names
      | Some p \<Rightarrow> filter (\<lambda>n. str_contains (lower p) (lower n)) names)"

text \<open>\<open>min(max(totalCount - offset, 0), limit-or-infinity)\<close>.\<close>

definition spec_returned_count :: "int \<Rightarrow> int option \<Rightarrow> int \<Rightarrow> int" where
  "spec_returned_count n limit offs =
     (case limit of None \<Rightarrow> max (n - offs) 0 | Some l \<Rightarrow> min (max (n - offs) 0) l)"

text \<open>A configuration without credentials, and a backend that answers every request with
  status 200 and the envelope \<^verbatim>\<open>{"status": "success", "data": payload}\<close>.\<close>

definition example_config :: prometheus_config where
  "example_config = \<lparr>url = ''http://prometheus:9090'', url_ssl_verify = True,
     disable_prometheus_links = False, username = None, password = None, token = None,
     org_id = None, mcp_server_config = None, custom_headers = None\<rparr>"

definition success_reply :: "json \<Rightarrow> backend" where
  "success_reply payload =
     (\<lambda>req. Response 200 (JSON (JObj [(''status'', JStr ''success''), (''data'', payload)])))"

definition example_catalog :: "string list" where
  "example_catalog = [''up'', ''go_info'', ''UP_total'']"

text \<open>Two configurations with a token and basic credentials: the second one also sets an
  \<^verbatim>\<open>Authorization\<close> entry in \<^verbatim>\<open>PROMETHEUS_CUSTOM_HEADERS\<close>.\<close>

definition bearer_config :: prometheus_config where
  "bearer_config = example_config\<lparr>username := Some ''u'', password := Some ''p'',
     token := Some ''t'', org_id := Some ''tenant'',
     custom_headers := Some [(''X-Trace'', ''1'')]\<rparr>"

definition override_config :: prometheus_config where
  "override_config = example_config\<lparr>username := Some ''u'', password := Some ''p'',
     token := Some ''t'', custom_headers := Some [(''Authorization'', ''Basic dTpw'')]\<rparr>"

text \<open>A backend that cannot be reached, and a state whose cached catalog was stored at
  time 1000.\<close>

definition failing_backend :: backend where
  "failing_backend = (\<lambda>req. Failed ''connection refused'')"

definition stale_state :: state where
  "stale_state = initial_state\<lparr>cache_data := JList (map JStr example_catalog),
                                cache_timestamp := 1000\<rparr>"

text \<open>A backend that answers every request with status 200 and the given dictionary as
  its body.\<close>

definition error_reply :: "(string \<times> json) list \<Rightarrow> backend" where
  "error_reply kvs = (\<lambda>req. Response 200 (JSON (JObj kvs)))"

text \<open>The value the specification selects from a metadata payload: the entry under
  \<^verbatim>\<open>metadata\<close>, else the entry under \<^verbatim>\<open>data\<close>, else the payload itself.\<close>

definition spec_metadata_value :: "json \<Rightarrow> json" where
  "spec_metadata_value payload =
     (case payload of
        JObj kvs \<Rightarrow> (case map_of kvs ''metadata'' of
                       Some v \<Rightarrow> v
                     | None \<Rightarrow> (case map_of kvs ''data'' of Some v \<Rightarrow> v | None \<Rightarrow> payload))
      | _ \<Rightarrow> payload)"

text \<open>A lone dictionary becomes a list of one element.\<close>

definition spec_wrap :: "json \<Rightarrow> json" where
  "spec_wrap v = (case v of JObj kvs \<Rightarrow> JList [v] | _ \<Rightarrow> v)"

text \<open>The metadata values the specification speaks of: lists and lone dictionaries.\<close>

fun is_list_or_dict :: "json \<Rightarrow> bool" where
  "is_list_or_dict (JList xs) = True"
| "is_list_or_dict (JObj kvs) = True"
| "is_list_or_dict v = False"

text \<open>The payloads of the metadata endpoint: a dictionary, or a bare list that does not hold
  the strings \<^verbatim>\<open>"metadata"\<close> or \<^verbatim>\<open>"data"\<close> as elements.\<close>

fun metadata_payload :: "json \<Rightarrow> bool" where
  "metadata_payload (JObj kvs) = True"
| "metadata_payload (JList xs) = (JStr ''metadata'' \<notin> set xs \<and> JStr ''data'' \<notin> set xs)"
| "metadata_payload v = False"

text \<open>An empty range-query payload.\<close>

definition matrix_payload :: json where
  "matrix_payload = JObj [(''resultType'', JStr ''matrix''), (''result'', JList [])]"

text \<open>The page \<^verbatim>\<open>[offset : offset + limit]\<close> of a list of names, without an upper bound when the
  limit is absent.\<close>

definition spec_page :: "'a list \<Rightarrow> int option \<Rightarrow> int \<Rightarrow> 'a list" where
  "spec_page names limit offs =
     slice names offs (case limit of Some l \<Rightarrow> offs + l | None \<Rightarrow> int (length names))"

section \<open>Auxiliary facts\<close>

subsection \<open>Dictionaries and the gateway\<close>

lemma map_of_dict_set: "map_of (dict_set k v d) = (map_of d)(k \<mapsto> v)"
  by (induction d) auto

lemma map_of_dict_update_other:
  "k \<notin> fst ` set other \<Longrightarrow> map_of (dict_update d other) k = map_of d k"
  unfolding dict_update_def
  by (induction other arbitrary: d) (auto simp: map_of_dict_set)

lemma build_request_auth_header:
  assumes "truthy (token config)"
    and "\<forall>ch. custom_headers config = Some ch \<longrightarrow> ''Authorization'' \<notin> fst ` set ch"
  shows "map_of (req_headers (build_request config endpoint params)) ''Authorization''
           = Some (''Bearer '' @ the (token config))"
  using assms
  by (auto simp: build_request_def get_prometheus_auth_def Let_def dict_update_def
        map_of_dict_set map_of_dict_update_other[unfolded dict_update_def] split: option.splits)

lemma build_request_no_basic:
  "truthy (token config) \<Longrightarrow> req_auth (build_request config endpoint params) = None"
  by (simp add: build_request_def get_prometheus_auth_def Let_def)

lemma make_prometheus_request_fst:
  "fst (make_prometheus_request config backend ep ps s) =
     (if url config = [] then Inl (ValueError (Plain
          ''Prometheus configuration is missing. Please set PROMETHEUS_URL environment variable.''))
      else (case read_response (backend (build_request config ep ps)) of
              Inl e \<Rightarrow> Inl (reraise e) | Inr v \<Rightarrow> Inr v))"
  by (simp add: make_prometheus_request_def Let_def split: sum.splits)

lemma make_prometheus_request_snd:
  "snd (make_prometheus_request config backend ep ps s) =
     s\<lparr>gateway_calls := gateway_calls s @ [(ep, ps)],
       http_requests := http_requests s @
          (if url config = [] then [] else [build_request config ep ps])\<rparr>"
  by (simp add: make_prometheus_request_def Let_def split: sum.splits)

lemma make_prometheus_request_ticks:
  "make_prometheus_request config backend ep ps (report_progress ctx p m s) =
     (fst (make_prometheus_request config backend ep ps s),
      report_progress ctx p m (snd (make_prometheus_request config backend ep ps s)))"
  by (simp add: make_prometheus_request_def report_progress_def Let_def split: sum.splits)

lemma example_read: "read_response (success_reply payload req) = Inr payload"
  by (simp add: read_response_def success_reply_def and_then_def)

lemma example_url: "url example_config \<noteq> []"
  by (simp add: example_config_def)

subsection \<open>The cache and the progress reporter\<close>

lemma cache_valid_ticks [simp]:
  "cache_valid (report_progress ctx p m s) t = cache_valid s t"
  by (simp add: cache_valid_def report_progress_def)

lemma cache_data_ticks [simp]:
  "cache_data (report_progress ctx p m s) = cache_data s"
  by (simp add: report_progress_def)

lemma fetch_fresh_ticks:
  "fetch_fresh config backend t (report_progress ctx p m s) =
     (fst (fetch_fresh config backend t s),
      report_progress ctx p m (snd (fetch_fresh config backend t s)))"
proof (cases "make_prometheus_request config backend ''label/__name__/values'' None s")
  case (Pair r s1)
  have swap: "report_progress ctx p m (s1\<lparr>cache_data := d, cache_timestamp := t\<rparr>)
                = (report_progress ctx p m s1)\<lparr>cache_data := d, cache_timestamp := t\<rparr>" for d
    by (simp add: report_progress_def)
  show ?thesis
    by (cases r) (simp_all add: fetch_fresh_def make_prometheus_request_ticks Pair Let_def swap
          split: sum.splits)
qed

lemma get_cached_metrics_ticks:
  "get_cached_metrics config backend t (report_progress ctx p m s) =
     (fst (get_cached_metrics config backend t s),
      report_progress ctx p m (snd (get_cached_metrics config backend t s)))"
  by (cases "fetch_fresh config backend t s")
     (auto simp: get_cached_metrics_def fetch_fresh_ticks split: sum.splits)

subsection \<open>Filtering and pagination\<close>

lemma str_contains_Nil: "str_contains [] s"
  by (induction s) auto

lemma spec_filter_empty: "spec_filter (Some []) names = names"
  by (simp add: spec_filter_def lower_def str_contains_Nil)

lemma filter_names_strs:
  "filter_names t (map JStr names) = Inr (map JStr (filter (\<lambda>n. str_contains t (lower n)) names))"
  by (induction names) (auto simp: and_then_def)

lemma length_slice:
  "0 \<le> offs \<Longrightarrow> 0 \<le> stop \<Longrightarrow>
     int (length (slice xs offs stop)) = max 0 (min (int (length xs)) stop - min (int (length xs)) offs)"
  by (auto simp: slice_def slice_bound_def Let_def min_def max_def)

lemma paginate_list:
  "paginate (JList xs) limit offs =
     Inr \<lparr>metrics = JList (slice xs offs (case limit of Some l \<Rightarrow> offs + l | None \<Rightarrow> int (length xs))),
          total_count = int (length xs),
          returned_count = int (length (slice xs offs (case limit of Some l \<Rightarrow> offs + l | None \<Rightarrow> int (length xs)))),
          offset = offs,
          has_more = ((case limit of Some l \<Rightarrow> offs + l | None \<Rightarrow> int (length xs)) < int (length xs))\<rparr>"
  by (simp add: paginate_def and_then_def Let_def)

lemma paginate_counts:
  assumes "0 \<le> offs" and "\<forall>l. limit = Some l \<longrightarrow> 0 \<le> l"
  shows "\<exists>r. paginate (JList xs) limit offs = Inr r
           \<and> metrics r = JList (slice xs offs (case limit of Some l \<Rightarrow> offs + l | None \<Rightarrow> int (length xs)))
           \<and> total_count r = int (length xs)
           \<and> returned_count r = spec_returned_count (int (length xs)) limit offs
           \<and> has_more r = (offs + returned_count r < total_count r)"
  using assms
  by (cases limit) (auto simp: paginate_list length_slice spec_returned_count_def min_def max_def)

lemma list_metrics_catalog:
  assumes "url config \<noteq> []"
    and "read_response (backend (build_request config ''label/__name__/values'' None))
           = Inr (JList (map JStr names))"
  shows "fst (list_metrics config backend limit offs pattern ctx s) =
           paginate (JList (map JStr (if truthy pattern then spec_filter pattern names else names)))
             limit offs"
proof -
  have g: "fst (make_prometheus_request config backend ''label/__name__/values'' None s)
             = Inr (JList (map JStr names))"
    using assms by (simp add: make_prometheus_request_fst)
  show ?thesis
    by (cases pattern; cases "paginate (JList (map JStr names)) limit offs";
        cases "paginate (JList (map JStr (filter (\<lambda>n. str_contains (lower (the pattern)) (lower n)) names))) limit offs")
       (simp_all add: list_metrics_def make_prometheus_request_ticks g Let_def and_then_def
          filter_names_strs spec_filter_def)
qed

lemma search_metrics_catalog:
  assumes "fst (get_cached_metrics config backend now s) = Inr (JList (map JStr names))"
  shows "fst (search_metrics config backend now prefix limit offs ctx s) =
           paginate (JList (map JStr (spec_filter (Some prefix) names))) limit offs"
  using assms
  by (cases "paginate (JList (map JStr (filter (\<lambda>n. str_contains (lower prefix) (lower n)) names))) limit offs")
     (simp_all add: search_metrics_def get_cached_metrics_ticks Let_def and_then_def
        filter_names_strs spec_filter_def)

lemma example_cached:
  "fst (get_cached_metrics example_config (success_reply (JList (map JStr example_catalog)))
          1000 initial_state)
     = Inr (JList (map JStr example_catalog))"
  by (simp add: get_cached_metrics_def cache_valid_def initial_state_def fetch_fresh_def
        make_prometheus_request_def example_config_def Let_def example_read)

lemma example_filter: "spec_filter (Some ''Up'') example_catalog = [''up'', ''UP_total'']"
  by code_simp

section \<open>Pagination of the metric lists\<close>

text \<open>
  Claim C1. Take a catalog of metric names, an offset that is not negative and a limit that
  is absent or not negative. When the gateway answers \<^verbatim>\<open>list_metrics\<close> with the catalog, and
  when the cache hands the catalog to \<^verbatim>\<open>search_metrics\<close>, each handler returns a page whose
  \<^verbatim>\<open>total_count\<close> is the number of names left by the filter, whose \<^verbatim>\<open>returned_count\<close> is
  \<open>min(max(total_count - offset, 0), limit)\<close>, the limit counting as infinite when absent,
  and whose \<^verbatim>\<open>has_more\<close> says whether \<open>offset + returned_count < total_count\<close>.
\<close>

theorem pagination_counts:
  assumes "0 \<le> offs" and "\<forall>l. limit = Some l \<longrightarrow> 0 \<le> l"
  shows "(url config \<noteq> [] \<and>
          read_response (backend (build_request config ''label/__name__/values'' None))
            = Inr (JList (map JStr names))
          \<longrightarrow> (\<exists>r. fst (list_metrics config backend limit offs pattern ctx s) = Inr r
                 \<and> total_count r = int (length (spec_filter pattern names))
                 \<and> returned_count r = spec_returned_count (total_count r) limit offs
                 \<and> has_more r = (offs + returned_count r < total_count r)))
       \<and> (fst (get_cached_metrics config backend now s) = Inr (JList (map JStr names))
          \<longrightarrow> (\<exists>r. fst (search_metrics config backend now prefix limit offs ctx s) = Inr r
                 \<and> total_count r = int (length (spec_filter (Some prefix) names))
                 \<and> returned_count r = spec_returned_count (total_count r) limit offs
                 \<and> has_more r = (offs + returned_count r < total_count r)))"
proof (intro conjI impI)
  assume h: "url config \<noteq> [] \<and>
          read_response (backend (build_request config ''label/__name__/values'' None))
            = Inr (JList (map JStr names))"
  have f: "(if truthy pattern then spec_filter pattern names else names) = spec_filter pattern names"
    by (cases pattern) (auto simp: spec_filter_def lower_def str_contains_Nil)
  from h have "fst (list_metrics config backend limit offs pattern ctx s) =
      paginate (JList (map JStr (spec_filter pattern names))) limit offs"
    by (simp add: list_metrics_catalog f)
  with paginate_counts[OF assms, of "map JStr (spec_filter pattern names)"]
  show "\<exists>r. fst (list_metrics config backend limit offs pattern ctx s) = Inr r
                 \<and> total_count r = int (length (spec_filter pattern names))
                 \<and> returned_count r = spec_returned_count (total_count r) limit offs
                 \<and> has_more r = (offs + returned_count r < total_count r)"
    by auto
next
  assume "fst (get_cached_metrics config backend now s) = Inr (JList (map JStr names))"
  then have "fst (search_metrics config backend now prefix limit offs ctx s) =
      paginate (JList (map JStr (spec_filter (Some prefix) names))) limit offs"
    by (rule search_metrics_catalog)
  with paginate_counts[OF assms, of "map JStr (spec_filter (Some prefix) names)"]
  show "\<exists>r. fst (search_metrics config backend now prefix limit offs ctx s) = Inr r
                 \<and> total_count r = int (length (spec_filter (Some prefix) names))
                 \<and> returned_count r = spec_returned_count (total_count r) limit offs
                 \<and> has_more r = (offs + returned_count r < total_count r)"
    by auto
qed

theorem pagination_counts_witness:
  "(\<exists>r. fst (list_metrics example_config (success_reply (JList (map JStr example_catalog)))
              (Some 1) 0 (Some ''Up'') True initial_state) = Inr r
        \<and> total_count r = 2 \<and> returned_count r = 1 \<and> has_more r)
   \<and> (\<exists>r. fst (search_metrics example_config (success_reply (JList (map JStr example_catalog)))
              1000 ''Up'' (Some 1) 0 True initial_state) = Inr r
        \<and> total_count r = 2 \<and> returned_count r = 1 \<and> has_more r)"
  using pagination_counts [of 0 "Some 1" example_config
      "success_reply (JList (map JStr example_catalog))" example_catalog "Some ''Up''" True
      initial_state 1000 "''Up''"]
  by (auto simp add: example_read example_cached example_filter spec_returned_count_def
        example_url)

section \<open>Authentication of outbound requests\<close>

text \<open>
  Claim C3, as the code has it. In a configuration with a bearer token, a username and a
  password, whose custom headers have no \<^verbatim>\<open>Authorization\<close> entry, the only request a call of
  the gateway sends is the one built from the configuration; it carries the header
  \<^verbatim>\<open>Authorization: Bearer <token>\<close> and passes no basic-auth credential to the HTTP call.
\<close>

theorem gateway_auth_precedence:
  assumes "truthy (token config)"
    and "truthy (username config)" and "truthy (password config)"
    and "\<forall>ch. custom_headers config = Some ch \<longrightarrow> ''Authorization'' \<notin> fst ` set ch"
  shows "http_requests (snd (make_prometheus_request config backend endpoint params s))
           = http_requests s @
               (if url config = [] then [] else [build_request config endpoint params])
       \<and> map_of (req_headers (build_request config endpoint params)) ''Authorization''
           = Some (''Bearer '' @ the (token config))
       \<and> req_auth (build_request config endpoint params) = None"
  using assms
  by (simp add: make_prometheus_request_snd build_request_auth_header build_request_no_basic)

theorem gateway_auth_precedence_witness:
  "truthy (token bearer_config) \<and> truthy (username bearer_config)
   \<and> truthy (password bearer_config)
   \<and> http_requests (snd (make_prometheus_request bearer_config (success_reply JNull)
         ''query'' None initial_state)) = [build_request bearer_config ''query'' None]
   \<and> map_of (req_headers (build_request bearer_config ''query'' None)) ''Authorization''
         = Some ''Bearer t''
   \<and> req_auth (build_request bearer_config ''query'' None) = None"
  using gateway_auth_precedence [of bearer_config "success_reply JNull" "''query''" None
      initial_state]
  by (simp add: bearer_config_def example_config_def initial_state_def)

text \<open>
  With an \<^verbatim>\<open>Authorization\<close> entry among the custom headers, which are merged last, the
  request carries that entry and no bearer header, although a token and basic credentials
  are both configured.
\<close>

theorem gateway_auth_precedence_counterexample:
  "truthy (token override_config) \<and> truthy (username override_config)
   \<and> truthy (password override_config)
   \<and> map req_headers (http_requests (snd (make_prometheus_request override_config
         (success_reply JNull) ''query'' None initial_state)))
       = [[(''Authorization'', ''Basic dTpw'')]]"
  by (simp add: override_config_def example_config_def initial_state_def
        make_prometheus_request_snd build_request_def get_prometheus_auth_def
        dict_update_def Let_def)

section \<open>Behaviour of the metrics name cache\<close>

lemma get_cached_metrics_valid:
  "cache_valid s t \<Longrightarrow> get_cached_metrics config backend t s = (Inr (cache_data s), s)"
  by (simp add: get_cached_metrics_def)

lemma fetch_fresh_failure:
  assumes "fst (make_prometheus_request config backend ''label/__name__/values'' None s) = Inl e"
  shows "fetch_fresh config backend t s =
           (Inl e, snd (make_prometheus_request config backend ''label/__name__/values'' None s))"
  using assms
  by (cases "make_prometheus_request config backend ''label/__name__/values'' None s")
     (simp add: fetch_fresh_def)

lemma fetch_fresh_calls:
  "gateway_calls (snd (fetch_fresh config backend t s)) =
     gateway_calls s @ [(''label/__name__/values'', None)]"
proof (cases "make_prometheus_request config backend ''label/__name__/values'' None s")
  case (Pair r s1)
  with make_prometheus_request_snd[of config backend "''label/__name__/values''" None s]
  have "gateway_calls s1 = gateway_calls s @ [(''label/__name__/values'', None)]"
    by simp
  then show ?thesis
    by (cases r) (simp_all add: fetch_fresh_def Pair Let_def split: sum.splits)
qed

lemma get_cached_metrics_calls:
  "gateway_calls (snd (get_cached_metrics config backend t s)) =
     gateway_calls s @ (if cache_valid s t then [] else [(''label/__name__/values'', None)])"
  using fetch_fresh_calls[of config backend t s]
  by (cases "fetch_fresh config backend t s")
     (auto simp: get_cached_metrics_def split: sum.splits)

lemma get_cached_metrics_returns:
  "\<exists>v. fst (get_cached_metrics config backend t s) = Inr v"
  by (cases "fetch_fresh config backend t s")
     (auto simp: get_cached_metrics_def split: sum.splits)

lemma get_cached_metrics_failure:
  assumes "\<not> cache_valid s t"
    and "fst (make_prometheus_request config backend ''label/__name__/values'' None s) = Inl e"
  shows "fst (get_cached_metrics config backend t s)
           = Inr (if cache_data s \<noteq> JNull then cache_data s else JList [])"
    and "cache_data (snd (get_cached_metrics config backend t s)) = cache_data s"
    and "cache_timestamp (snd (get_cached_metrics config backend t s)) = cache_timestamp s"
  using assms
  by (simp_all add: get_cached_metrics_def fetch_fresh_failure make_prometheus_request_snd)

lemma get_cached_metrics_success:
  assumes "\<not> cache_valid s t"
    and "fst (make_prometheus_request config backend ''label/__name__/values'' None s) = Inr (JList xs)"
  shows "fst (get_cached_metrics config backend t s) = Inr (JList xs)"
    and "cache_data (snd (get_cached_metrics config backend t s)) = JList xs"
    and "cache_timestamp (snd (get_cached_metrics config backend t s)) = t"
  using assms
  by (cases "make_prometheus_request config backend ''label/__name__/values'' None s";
      simp add: get_cached_metrics_def fetch_fresh_def Let_def)+

lemma report_progress_fields [simp]:
  "cache_timestamp (report_progress ctx p m s) = cache_timestamp s"
  "gateway_calls (report_progress ctx p m s) = gateway_calls s"
  "http_requests (report_progress ctx p m s) = http_requests s"
  by (simp_all add: report_progress_def)

lemma search_metrics_state:
  "cache_data (snd (search_metrics config backend t prefix limit offs ctx s))
     = cache_data (snd (get_cached_metrics config backend t s))"
  "cache_timestamp (snd (search_metrics config backend t prefix limit offs ctx s))
     = cache_timestamp (snd (get_cached_metrics config backend t s))"
  "gateway_calls (snd (search_metrics config backend t prefix limit offs ctx s))
     = gateway_calls (snd (get_cached_metrics config backend t s))"
  by (cases "get_cached_metrics config backend t s";
      simp add: search_metrics_def get_cached_metrics_ticks Let_def
        split: sum.splits)+



lemma failing_gateway:
  "fst (make_prometheus_request example_config failing_backend ep ps s)
     = Inl (RequestException ''connection refused'')"
  by (simp add: make_prometheus_request_fst example_url failing_backend_def read_response_def)

lemma success_gateway:
  "fst (make_prometheus_request example_config (success_reply payload) ep ps s) = Inr payload"
  by (simp add: make_prometheus_request_fst example_url example_read)

lemma stale_state_simps:
  "cache_data stale_state = JList (map JStr example_catalog)"
  "cache_timestamp stale_state = 1000"
  "gateway_calls stale_state = []"
  by (simp_all add: stale_state_def initial_state_def)

lemma initial_state_simps:
  "cache_data initial_state = JNull"
  "cache_timestamp initial_state = 0"
  "gateway_calls initial_state = []"
  by (simp_all add: initial_state_def)

text \<open>
  Claim C2. \<^verbatim>\<open>get_cached_metrics\<close> never raises: in every state and for every answer of the
  backend it returns a value. When the cache is not fresh and the call of the gateway raises,
  it returns the cached snapshot if there is one, and the empty list if there is none.
\<close>

theorem get_cached_metrics_never_raises:
  "(\<exists>v. fst (get_cached_metrics config backend now s) = Inr v)
   \<and> (\<not> cache_valid s now
        \<and> fst (make_prometheus_request config backend ''label/__name__/values'' None s) = Inl e
      \<longrightarrow> fst (get_cached_metrics config backend now s)
            = Inr (if cache_data s \<noteq> JNull then cache_data s else JList []))"
  by (simp add: get_cached_metrics_returns get_cached_metrics_failure)

theorem get_cached_metrics_never_raises_witness:
  "fst (get_cached_metrics example_config failing_backend 2000 stale_state)
     = Inr (JList (map JStr example_catalog))
   \<and> fst (get_cached_metrics example_config failing_backend 2000 initial_state) = Inr (JList [])"
  using get_cached_metrics_never_raises [of example_config failing_backend 2000 stale_state
          "RequestException ''connection refused''"]
        get_cached_metrics_never_raises [of example_config failing_backend 2000 initial_state
          "RequestException ''connection refused''"]
  by (simp add: failing_gateway cache_valid_def CACHE_TTL_def stale_state_simps
        initial_state_simps)

text \<open>
  Claim C9. When the cache is not fresh and the call of the gateway raises, the stored
  snapshot and the stored timestamp are what they were, and the next call of
  \<^verbatim>\<open>get_cached_metrics\<close>, at the same time or later, calls the gateway again for the metric
  names, whatever the backend then answers.
\<close>

theorem failed_refresh_keeps_cache:
  assumes "\<not> cache_valid s t1"
    and "fst (make_prometheus_request config backend ''label/__name__/values'' None s) = Inl e"
    and "t1 \<le> t2"
  shows "cache_data (snd (get_cached_metrics config backend t1 s)) = cache_data s
       \<and> cache_timestamp (snd (get_cached_metrics config backend t1 s)) = cache_timestamp s
       \<and> gateway_calls (snd (get_cached_metrics config backend' t2
                               (snd (get_cached_metrics config backend t1 s))))
           = gateway_calls (snd (get_cached_metrics config backend t1 s))
               @ [(''label/__name__/values'', None)]"
proof -
  let ?s' = "snd (get_cached_metrics config backend t1 s)"
  have same: "cache_data ?s' = cache_data s" "cache_timestamp ?s' = cache_timestamp s"
    using assms(1,2) by (rule get_cached_metrics_failure)+
  have "\<not> cache_valid ?s' t2"
    using assms(1,3) by (auto simp: cache_valid_def same)
  then show ?thesis
    by (simp add: same get_cached_metrics_calls)
qed

theorem failed_refresh_keeps_cache_witness:
  "cache_data (snd (get_cached_metrics example_config failing_backend 2000 stale_state))
     = JList (map JStr example_catalog)
   \<and> cache_timestamp (snd (get_cached_metrics example_config failing_backend 2000 stale_state))
     = 1000
   \<and> gateway_calls (snd (get_cached_metrics example_config failing_backend 2001
                           (snd (get_cached_metrics example_config failing_backend 2000 stale_state))))
     = [(''label/__name__/values'', None), (''label/__name__/values'', None)]"
  using failed_refresh_keeps_cache [of stale_state 2000 example_config failing_backend
          "RequestException ''connection refused''" 2001 failing_backend]
  by (simp add: failing_gateway cache_valid_def CACHE_TTL_def stale_state_simps
        get_cached_metrics_calls)

text \<open>
  Claim C4. Two calls of \<^verbatim>\<open>search_metrics\<close> in a row, at times \<open>t1\<close> and \<open>t2\<close>: when the
  cache is fresh at both times they call the gateway not at all; when the first call
  finds the cache not fresh, fetches a list of names with success, and the second call
  starts less than 300 seconds after it, they call the gateway once, for the metric names.
  A call that finds the cache not fresh, expired or never filled, calls the gateway for the
  metric names exactly once.
\<close>

theorem search_metrics_cache_window:
  "(cache_valid s t1 \<and> cache_valid s t2
      \<longrightarrow> gateway_calls (snd (search_metrics config b2 t2 p2 l2 o2 c2
                               (snd (search_metrics config b1 t1 p1 l1 o1 c1 s))))
            = gateway_calls s)
   \<and> (\<not> cache_valid s t1
        \<and> fst (make_prometheus_request config b1 ''label/__name__/values'' None s) = Inr (JList xs)
        \<and> t2 - t1 < CACHE_TTL
      \<longrightarrow> gateway_calls (snd (search_metrics config b2 t2 p2 l2 o2 c2
                               (snd (search_metrics config b1 t1 p1 l1 o1 c1 s))))
            = gateway_calls s @ [(''label/__name__/values'', None)])
   \<and> (\<not> cache_valid s t1
      \<longrightarrow> gateway_calls (snd (search_metrics config b1 t1 p1 l1 o1 c1 s))
            = gateway_calls s @ [(''label/__name__/values'', None)])"
proof (intro conjI impI)
  let ?s1 = "snd (search_metrics config b1 t1 p1 l1 o1 c1 s)"
  {
    assume v: "cache_valid s t1 \<and> cache_valid s t2"
    then have "cache_valid ?s1 t2"
      by (simp add: cache_valid_def search_metrics_state get_cached_metrics_valid)
    with v show "gateway_calls (snd (search_metrics config b2 t2 p2 l2 o2 c2 ?s1)) = gateway_calls s"
      by (simp add: search_metrics_state get_cached_metrics_calls)
  next
    assume f: "\<not> cache_valid s t1
        \<and> fst (make_prometheus_request config b1 ''label/__name__/values'' None s) = Inr (JList xs)
        \<and> t2 - t1 < CACHE_TTL"
    then have "cache_data ?s1 = JList xs" "cache_timestamp ?s1 = t1"
      by (simp_all add: search_metrics_state get_cached_metrics_success)
    with f have "cache_valid ?s1 t2"
      by (simp add: cache_valid_def)
    with f show "gateway_calls (snd (search_metrics config b2 t2 p2 l2 o2 c2 ?s1))
            = gateway_calls s @ [(''label/__name__/values'', None)]"
      by (simp add: search_metrics_state get_cached_metrics_calls)
  next
    assume "\<not> cache_valid s t1"
    then show "gateway_calls ?s1 = gateway_calls s @ [(''label/__name__/values'', None)]"
      by (simp add: search_metrics_state get_cached_metrics_calls)
  }
qed

theorem search_metrics_cache_window_witness:
  "gateway_calls (snd (search_metrics example_config failing_backend 1200 ''up'' (Some 50) 0 False
       (snd (search_metrics example_config failing_backend 1100 ''go'' (Some 50) 0 False
               stale_state)))) = []
   \<and> gateway_calls (snd (search_metrics example_config
         (success_reply (JList (map JStr example_catalog))) 1299 ''up'' (Some 50) 0 False
       (snd (search_metrics example_config (success_reply (JList (map JStr example_catalog)))
               1000 ''go'' (Some 50) 0 False initial_state))))
       = [(''label/__name__/values'', None)]
   \<and> gateway_calls (snd (search_metrics example_config failing_backend 1300 ''up'' (Some 50) 0
         False stale_state))
       = [(''label/__name__/values'', None)]"
  using search_metrics_cache_window [of stale_state 1100 1200 example_config failing_backend
          "''up''" "Some 50" 0 False failing_backend "''go''" "Some 50" 0 False]
        search_metrics_cache_window [of initial_state 1000 1299 example_config
          "success_reply (JList (map JStr example_catalog))" "''up''" "Some 50" 0 False
          "success_reply (JList (map JStr example_catalog))" "''go''" "Some 50" 0 False
          "map JStr example_catalog"]
        search_metrics_cache_window [of stale_state 1300 1300 example_config failing_backend
          "''up''" "Some 50" 0 False failing_backend "''up''" "Some 50" 0 False]
  by (simp add: success_gateway cache_valid_def CACHE_TTL_def stale_state_simps
        initial_state_simps)

section \<open>Failures reported by the backend\<close>

lemma read_response_backend_error:
  assumes "\<not> (400 \<le> code \<and> code < 600)"
    and "map_of kvs ''status'' = Some st" and "st \<noteq> JStr ''success''"
  shows "read_response (Response code (JSON (JObj kvs))) =
           Inl (ValueError (FString ''Prometheus API error: ''
                  (case map_of kvs ''error'' of Some v \<Rightarrow> v | None \<Rightarrow> JStr ''Unknown error'')))"
  using assms
  by (simp add: read_response_def and_then_def dict_get_def split: option.splits)

lemma execute_query_failure:
  "fst (make_prometheus_request config backend ''query''
          (Some (if truthy time then [(''query'', query), (''time'', the time)]
                 else [(''query'', query)])) s) = Inl e
   \<Longrightarrow> fst (execute_query config backend query time s) = Inl e"
  by (cases "make_prometheus_request config backend ''query''
          (Some (if truthy time then [(''query'', query), (''time'', the time)]
                 else [(''query'', query)])) s")
     (simp add: execute_query_def Let_def)

text \<open>
  Claim C5, as the code has it. When the backend answers with a status code from 200 to 299
  and a JSON dictionary whose \<^verbatim>\<open>status\<close> is not \<^verbatim>\<open>"success"\<close>, the gateway raises
  \<^verbatim>\<open>ValueError("Prometheus API error: <error>")\<close>, where \<^verbatim>\<open><error>\<close> is the \<^verbatim>\<open>error\<close> entry of the
  body, or \<^verbatim>\<open>"Unknown error"\<close> when the body has none. For the body
  \<^verbatim>\<open>{"status": "error", "error": "bad query"}\<close> the caller of \<^verbatim>\<open>execute_query\<close> receives that
  exception, and its text contains \<^verbatim>\<open>bad query\<close>.
\<close>

theorem gateway_backend_failure:
  "(url config \<noteq> [] \<and> backend (build_request config endpoint params) = Response code (JSON (JObj kvs))
      \<and> 200 \<le> code \<and> code < 300
      \<and> map_of kvs ''status'' = Some st \<and> st \<noteq> JStr ''success''
    \<longrightarrow> fst (make_prometheus_request config backend endpoint params s) =
          Inl (ValueError (FString ''Prometheus API error: ''
                 (case map_of kvs ''error'' of Some v \<Rightarrow> v | None \<Rightarrow> JStr ''Unknown error''))))
   \<and> (url config \<noteq> []
    \<longrightarrow> fst (execute_query config
               (error_reply [(''status'', JStr ''error''), (''error'', JStr ''bad query'')])
               query time s)
          = Inl (ValueError (FString ''Prometheus API error: '' (JStr ''bad query'')))
        \<and> msg_text (FString ''Prometheus API error: '' (JStr ''bad query''))
          = Some ''Prometheus API error: bad query''
        \<and> str_contains ''bad query'' ''Prometheus API error: bad query'')"
proof (intro conjI impI)
  assume h: "url config \<noteq> [] \<and> backend (build_request config endpoint params) = Response code (JSON (JObj kvs))
      \<and> 200 \<le> code \<and> code < 300
      \<and> map_of kvs ''status'' = Some st \<and> st \<noteq> JStr ''success''"
  then have "read_response (backend (build_request config endpoint params)) =
           Inl (ValueError (FString ''Prometheus API error: ''
                  (case map_of kvs ''error'' of Some v \<Rightarrow> v | None \<Rightarrow> JStr ''Unknown error'')))"
    by (simp add: read_response_backend_error)
  with h show "fst (make_prometheus_request config backend endpoint params s) =
          Inl (ValueError (FString ''Prometheus API error: ''
                 (case map_of kvs ''error'' of Some v \<Rightarrow> v | None \<Rightarrow> JStr ''Unknown error'')))"
    by (simp add: make_prometheus_request_fst)
next
  assume u: "url config \<noteq> []"
  have "read_response (error_reply [(''status'', JStr ''error''), (''error'', JStr ''bad query'')] req)
          = Inl (ValueError (FString ''Prometheus API error: '' (JStr ''bad query'')))" for req
    by (simp add: error_reply_def read_response_backend_error)
  with u show "fst (execute_query config
               (error_reply [(''status'', JStr ''error''), (''error'', JStr ''bad query'')])
               query time s)
          = Inl (ValueError (FString ''Prometheus API error: '' (JStr ''bad query'')))"
    by (intro execute_query_failure) (simp add: make_prometheus_request_fst)
next
  show "msg_text (FString ''Prometheus API error: '' (JStr ''bad query''))
          = Some ''Prometheus API error: bad query''"
    by simp
next
  show "str_contains ''bad query'' ''Prometheus API error: bad query''"
    by simp
qed

theorem gateway_backend_failure_witness:
  "fst (make_prometheus_request example_config
          (error_reply [(''status'', JStr ''error''), (''error'', JStr ''bad query'')])
          ''query_range'' None initial_state)
     = Inl (ValueError (FString ''Prometheus API error: '' (JStr ''bad query'')))
   \<and> fst (execute_query example_config
          (error_reply [(''status'', JStr ''error''), (''error'', JStr ''bad query'')])
          ''rate(x[5m]'' None initial_state)
     = Inl (ValueError (FString ''Prometheus API error: '' (JStr ''bad query'')))"
  using gateway_backend_failure [of example_config
          "error_reply [(''status'', JStr ''error''), (''error'', JStr ''bad query'')]"
          "''query_range''" None 200 "[(''status'', JStr ''error''), (''error'', JStr ''bad query'')]"
          "JStr ''error''" initial_state "''rate(x[5m]''" None]
  by (simp add: example_url error_reply_def)

text \<open>
  The body \<^verbatim>\<open>{"status": "error"}\<close> has no \<^verbatim>\<open>error\<close> entry: the exception carries
  \<^verbatim>\<open>Unknown error\<close>, and its text does not contain \<^verbatim>\<open>unknown\<close>.
\<close>

theorem gateway_backend_failure_counterexample:
  "fst (make_prometheus_request example_config (error_reply [(''status'', JStr ''error'')])
          ''query'' None initial_state)
     = Inl (ValueError (FString ''Prometheus API error: '' (JStr ''Unknown error'')))
   \<and> msg_text (FString ''Prometheus API error: '' (JStr ''Unknown error''))
     = Some ''Prometheus API error: Unknown error''
   \<and> \<not> str_contains ''unknown'' ''Prometheus API error: Unknown error''"
  by (simp add: make_prometheus_request_fst example_url error_reply_def
        read_response_backend_error)

section \<open>Status of the health check\<close>

lemma health_check_result:
  "fst (health_check config backend utcnow now s) = fst (health_check_body config backend utcnow now s)"
  by (cases "make_prometheus_request config backend ''query''
               (Some [(''query'', ''up''), (''time'', str_int (int_of_float now))]) s")
     (auto simp: health_check_def health_check_body_def Let_def split: sum.splits)

text \<open>
  Claim C6. \<^verbatim>\<open>health_check\<close> never raises: it returns a dictionary in every case. Its
  \<^verbatim>\<open>status\<close> is \<^verbatim>\<open>unhealthy\<close> when no backend URL is configured; with a URL, it is
  \<^verbatim>\<open>degraded\<close> when the probe, the instant query \<^verbatim>\<open>up\<close> sent through the gateway, raises, and
  \<^verbatim>\<open>healthy\<close> when the probe returns.
\<close>

theorem health_check_status:
  "\<exists>h. fst (health_check config backend utcnow now s) = Inr h
       \<and> map_of h ''status'' =
           Some (HStr (if url config = [] then ''unhealthy''
                       else (case fst (make_prometheus_request config backend ''query''
                                        (Some [(''query'', ''up''),
                                               (''time'', str_int (int_of_float now))]) s) of
                               Inl e \<Rightarrow> ''degraded''
                             | Inr data \<Rightarrow> ''healthy'')))"
  by (cases "make_prometheus_request config backend ''query''
               (Some [(''query'', ''up''), (''time'', str_int (int_of_float now))]) s")
     (auto simp: health_check_result health_check_body_def Let_def map_of_dict_set
           split: sum.splits)

theorem health_check_status_witness:
  "(\<exists>h. fst (health_check (example_config\<lparr>url := []\<rparr>) failing_backend
               ''2024-01-01T00:00:00'' 1704067200 initial_state) = Inr h
        \<and> map_of h ''status'' = Some (HStr ''unhealthy''))
   \<and> (\<exists>h. fst (health_check example_config failing_backend
               ''2024-01-01T00:00:00'' 1704067200 initial_state) = Inr h
        \<and> map_of h ''status'' = Some (HStr ''degraded''))
   \<and> (\<exists>h. fst (health_check example_config (success_reply (JObj []))
               ''2024-01-01T00:00:00'' 1704067200 initial_state) = Inr h
        \<and> map_of h ''status'' = Some (HStr ''healthy''))"
  using health_check_status [of "example_config\<lparr>url := []\<rparr>" failing_backend
          "''2024-01-01T00:00:00''" 1704067200 initial_state]
        health_check_status [of example_config failing_backend
          "''2024-01-01T00:00:00''" 1704067200 initial_state]
        health_check_status [of example_config "success_reply (JObj [])"
          "''2024-01-01T00:00:00''" 1704067200 initial_state]
  by (simp add: failing_gateway success_gateway example_url)

section \<open>Normalisation of metric metadata\<close>

lemma map_of_key: "(k \<in> fst ` set kvs) = (map_of kvs k \<noteq> None)"
  by (induction kvs) auto

lemma py_len_wrap: "is_list_or_dict v \<Longrightarrow> \<exists>n. py_len (spec_wrap v) = Inr n"
  by (cases v) (simp_all add: spec_wrap_def)

lemma select_metadata:
  assumes "metadata_payload payload"
  shows "and_then (py_contains ''metadata'' payload) (\<lambda>has_metadata.
           and_then (if has_metadata then py_getitem payload ''metadata''
                     else and_then (py_contains ''data'' payload) (\<lambda>has_data.
                          if has_data then py_getitem payload ''data'' else Inr payload)) f)
         = f (spec_metadata_value payload)"
proof (cases payload)
  case (JObj kvs)
  then show ?thesis
    by (cases "map_of kvs ''metadata''"; cases "map_of kvs ''data''")
       (simp_all add: and_then_def spec_metadata_value_def map_of_key)
next
  case (JList xs)
  with assms show ?thesis
    by (simp add: and_then_def spec_metadata_value_def)
qed (use assms in simp_all)

lemma get_metric_metadata_normalizes:
  assumes "fst (make_prometheus_request config backend (''metadata?metric='' @ metric) None s)
             = Inr payload"
    and "metadata_payload payload"
    and "is_list_or_dict (spec_metadata_value payload)"
  shows "fst (get_metric_metadata config backend metric s)
           = Inr (spec_wrap (spec_metadata_value payload))"
proof -
  obtain s1 where m: "make_prometheus_request config backend (''metadata?metric='' @ metric) None s
      = (Inr payload, s1)"
    using assms(1)
    by (cases "make_prometheus_request config backend (''metadata?metric='' @ metric) None s") simp
  obtain n where n: "py_len (spec_wrap (spec_metadata_value payload)) = Inr n"
    using py_len_wrap[OF assms(3)] by blast
  have w: "(case v of JObj kvs \<Rightarrow> JList [v] | _ \<Rightarrow> v) = spec_wrap v" for v
    by (simp add: spec_wrap_def)
  show ?thesis
    unfolding get_metric_metadata_def m
    by (simp only: prod.case sum.case fst_conv select_metadata[OF assms(2)])
       (simp add: Let_def w n and_then_def)
qed

text \<open>
  Claim C7. For a payload of the metadata endpoint whose selected value is a list or a
  dictionary, \<^verbatim>\<open>get_metric_metadata\<close> returns the entry under \<^verbatim>\<open>metadata\<close> if the payload has
  one, else the entry under \<^verbatim>\<open>data\<close> if it has one, else the payload itself, and a lone
  dictionary comes back as a list of one element. The reply
  \<^verbatim>\<open>{"status": "success", "data": {"metadata": [{"type": "gauge"}]}}\<close> yields
  \<^verbatim>\<open>[{"type": "gauge"}]\<close>.
\<close>

theorem metadata_normalization:
  "(fst (make_prometheus_request config backend (''metadata?metric='' @ metric) None s)
       = Inr payload
     \<and> metadata_payload payload \<and> is_list_or_dict (spec_metadata_value payload)
    \<longrightarrow> fst (get_metric_metadata config backend metric s)
          = Inr (spec_wrap (spec_metadata_value payload)))
   \<and> (url config \<noteq> []
    \<longrightarrow> fst (get_metric_metadata config
               (success_reply (JObj [(''metadata'', JList [JObj [(''type'', JStr ''gauge'')]])]))
               ''up'' s)
          = Inr (JList [JObj [(''type'', JStr ''gauge'')]]))"
proof (intro conjI impI)
  assume "fst (make_prometheus_request config backend (''metadata?metric='' @ metric) None s)
       = Inr payload
     \<and> metadata_payload payload \<and> is_list_or_dict (spec_metadata_value payload)"
  then show "fst (get_metric_metadata config backend metric s)
          = Inr (spec_wrap (spec_metadata_value payload))"
    by (simp add: get_metric_metadata_normalizes)
next
  let ?p = "JObj [(''metadata'', JList [JObj [(''type'', JStr ''gauge'')]])]"
  assume "url config \<noteq> []"
  then have "fst (make_prometheus_request config (success_reply ?p) (''metadata?metric='' @ ''up'')
                None s) = Inr ?p"
    by (simp add: make_prometheus_request_fst example_read)
  then have "fst (get_metric_metadata config (success_reply ?p) ''up'' s)
          = Inr (spec_wrap (spec_metadata_value ?p))"
    by (rule get_metric_metadata_normalizes) (simp_all add: spec_metadata_value_def)
  then show "fst (get_metric_metadata config (success_reply ?p) ''up'' s)
          = Inr (JList [JObj [(''type'', JStr ''gauge'')]])"
    by (simp add: spec_metadata_value_def spec_wrap_def)
qed

theorem metadata_normalization_witness:
  "fst (get_metric_metadata example_config
          (success_reply (JObj [(''data'', JObj [(''type'', JStr ''counter'')])])) ''up''
          initial_state)
     = Inr (JList [JObj [(''type'', JStr ''counter'')]])
   \<and> fst (get_metric_metadata example_config
          (success_reply (JObj [(''up'', JList [JObj [(''type'', JStr ''gauge'')]])])) ''up''
          initial_state)
     = Inr (JList [JObj [(''up'', JList [JObj [(''type'', JStr ''gauge'')]])]])
   \<and> fst (get_metric_metadata example_config
          (success_reply (JObj [(''metadata'', JList [JObj [(''type'', JStr ''gauge'')]])]))
          ''up'' initial_state)
     = Inr (JList [JObj [(''type'', JStr ''gauge'')]])"
  using metadata_normalization [of example_config
          "success_reply (JObj [(''data'', JObj [(''type'', JStr ''counter'')])])" "''up''"
          initial_state "JObj [(''data'', JObj [(''type'', JStr ''counter'')])]"]
        metadata_normalization [of example_config
          "success_reply (JObj [(''up'', JList [JObj [(''type'', JStr ''gauge'')]])])" "''up''"
          initial_state "JObj [(''up'', JList [JObj [(''type'', JStr ''gauge'')]])]"]
  by (simp add: success_gateway example_url spec_metadata_value_def spec_wrap_def)

section \<open>Progress of a range query\<close>

lemma ticks_report_progress:
  "ticks (report_progress ctx p m s) =
     (if ctx then ticks s @ [\<lparr>tick_progress = p, tick_total = 100, tick_message = m\<rparr>]
      else ticks s)"
  by (simp add: report_progress_def)

lemma ticks_make_prometheus_request:
  "ticks (snd (make_prometheus_request config backend ep ps s)) = ticks s"
  by (simp add: make_prometheus_request_snd)

lemma execute_range_query_result:
  "fst (execute_range_query config backend query start end' step ctx s) =
     (case fst (make_prometheus_request config backend ''query_range''
                  (Some [(''query'', query), (''start'', start), (''end'', end'), (''step'', step)]) s) of
        Inl e \<Rightarrow> Inl e
      | Inr data \<Rightarrow>
          query_result_of config data
            [(''g0.expr'', query), (''g0.tab'', ''0''),
             (''g0.range_input'', start @ '' to '' @ end'), (''g0.step_input'', step)])"
  by (cases "make_prometheus_request config backend ''query_range''
                  (Some [(''query'', query), (''start'', start), (''end'', end'), (''step'', step)]) s")
     (simp add: execute_range_query_def make_prometheus_request_ticks Let_def
        split: sum.splits)

lemma execute_range_query_silent:
  "ticks (snd (execute_range_query config backend query start end' step False s)) = ticks s"
  by (cases "make_prometheus_request config backend ''query_range''
                  (Some [(''query'', query), (''start'', start), (''end'', end'), (''step'', step)]) s")
     (auto simp: execute_range_query_def make_prometheus_request_ticks Let_def
        ticks_report_progress dest: arg_cong [where f = "\<lambda>p. ticks (snd p)"]
        simp: ticks_make_prometheus_request split: sum.splits)

lemma query_result_of_ok:
  "py_getitem data ''resultType'' = Inr rt \<Longrightarrow> py_getitem data ''result'' = Inr res \<Longrightarrow>
     \<exists>r. query_result_of config data ui = Inr r \<and> resultType r = rt \<and> result r = res"
  by (simp add: query_result_of_def and_then_def)

lemma execute_range_query_returned_ticks:
  assumes "fst (execute_range_query config backend query start end' step True s) = Inr r"
  shows "map tick_progress (ticks (snd (execute_range_query config backend query start end' step True s)))
           = map tick_progress (ticks s) @ [0, 50, 100]"
proof -
  let ?ps = "Some [(''query'', query), (''start'', start), (''end'', end'), (''step'', step)]"
  obtain g s1 where m: "make_prometheus_request config backend ''query_range'' ?ps s = (g, s1)"
    by (cases "make_prometheus_request config backend ''query_range'' ?ps s")
  have t: "ticks s1 = ticks s"
    using ticks_make_prometheus_request[of config backend "''query_range''" ?ps s] m by simp
  from assms show ?thesis
    by (auto simp: execute_range_query_def make_prometheus_request_ticks m Let_def
          ticks_report_progress t split: sum.splits)
qed

lemma execute_range_query_returns_iff:
  "(\<exists>r. fst (execute_range_query config backend query start end' step ctx s) = Inr r) =
   (\<exists>data rt res.
      fst (make_prometheus_request config backend ''query_range''
             (Some [(''query'', query), (''start'', start), (''end'', end'), (''step'', step)]) s)
        = Inr data
      \<and> py_getitem data ''resultType'' = Inr rt \<and> py_getitem data ''result'' = Inr res)"
  by (auto simp: execute_range_query_result query_result_of_def and_then_def
        split: sum.splits)

lemma example_range_returns:
  "\<exists>r. fst (execute_range_query example_config (success_reply matrix_payload)
              query start end' step ctx s) = Inr r"
  by (simp add: execute_range_query_result success_gateway query_result_of_def and_then_def
        matrix_payload_def)

text \<open>
  Claim C8. A call of \<^verbatim>\<open>execute_range_query\<close> with a reporter that returns a result, which it
  does exactly when the gateway returns a payload with a \<^verbatim>\<open>resultType\<close> and a \<^verbatim>\<open>result\<close>,
  emits exactly three ticks, with the values 0, 50 and 100 in this order. A call without a
  reporter emits no tick, and it returns what the call with a reporter returns, whatever the
  backend answers.
\<close>

theorem range_query_progress:
  "(fst (execute_range_query config backend query start end' step True s) = Inr r
    \<longrightarrow> map tick_progress
           (ticks (snd (execute_range_query config backend query start end' step True s)))
          = map tick_progress (ticks s) @ [0, 50, 100])
   \<and> ticks (snd (execute_range_query config backend query start end' step False s)) = ticks s
   \<and> fst (execute_range_query config backend query start end' step False s)
     = fst (execute_range_query config backend query start end' step True s)"
  by (simp add: execute_range_query_returned_ticks execute_range_query_silent
        execute_range_query_result)

theorem range_query_progress_witness:
  "map tick_progress (ticks (snd (execute_range_query example_config (success_reply matrix_payload)
       ''up'' ''0'' ''60'' ''15s'' True initial_state))) = [0, 50, 100]
   \<and> ticks (snd (execute_range_query example_config (success_reply matrix_payload)
       ''up'' ''0'' ''60'' ''15s'' False initial_state)) = []"
proof -
  obtain r where r: "fst (execute_range_query example_config (success_reply matrix_payload)
       ''up'' ''0'' ''60'' ''15s'' True initial_state) = Inr r"
    using example_range_returns by blast
  have t: "ticks initial_state = []"
    by (simp add: initial_state_def)
  show ?thesis
    using range_query_progress [of example_config "success_reply matrix_payload" "''up''" "''0''"
          "''60''" "''15s''" initial_state r] r
    by (simp add: t)
qed

section \<open>The empty filter\<close>

lemma slice_map: "slice (map f xs) a b = map f (slice xs a b)"
  by (simp add: slice_def Let_def take_map drop_map)

lemma list_metrics_empty_pattern:
  "list_metrics config backend limit offs (Some []) ctx s
     = list_metrics config backend limit offs None ctx s"
  unfolding list_metrics_def truthy.simps simp_thms if_False
  by simp

lemma paginate_names:
  "\<exists>r. paginate (JList (map JStr names)) limit offs = Inr r
       \<and> metrics r = JList (map JStr (spec_page names limit offs))
       \<and> total_count r = int (length names)"
  by (cases limit) (simp_all add: paginate_list spec_page_def slice_map)

text \<open>
  Claim C10. \<^verbatim>\<open>list_metrics\<close> with the filter pattern \<^verbatim>\<open>""\<close> is \<^verbatim>\<open>list_metrics\<close> without a
  pattern, in its result and in its effects. On a catalog of names, \<^verbatim>\<open>list_metrics\<close> with
  the pattern \<^verbatim>\<open>""\<close> and \<^verbatim>\<open>search_metrics\<close> with the prefix \<^verbatim>\<open>""\<close> both return, without an
  error, the page of the whole catalog, and \<^verbatim>\<open>total_count\<close> is the size of the catalog.
\<close>

theorem empty_filter_selects_all:
  "list_metrics config backend limit offs (Some []) ctx s
     = list_metrics config backend limit offs None ctx s
   \<and> (url config \<noteq> [] \<and>
       read_response (backend (build_request config ''label/__name__/values'' None))
         = Inr (JList (map JStr names))
      \<longrightarrow> (\<exists>r. fst (list_metrics config backend limit offs (Some []) ctx s) = Inr r
             \<and> metrics r = JList (map JStr (spec_page names limit offs))
             \<and> total_count r = int (length names)))
   \<and> (fst (get_cached_metrics config backend now s) = Inr (JList (map JStr names))
      \<longrightarrow> (\<exists>r. fst (search_metrics config backend now [] limit offs ctx s) = Inr r
             \<and> metrics r = JList (map JStr (spec_page names limit offs))
             \<and> total_count r = int (length names)))"
proof (intro conjI impI)
  show "list_metrics config backend limit offs (Some []) ctx s
     = list_metrics config backend limit offs None ctx s"
    by (rule list_metrics_empty_pattern)
next
  assume "url config \<noteq> [] \<and>
       read_response (backend (build_request config ''label/__name__/values'' None))
         = Inr (JList (map JStr names))"
  then have "fst (list_metrics config backend limit offs (Some []) ctx s)
               = paginate (JList (map JStr names)) limit offs"
    by (simp add: list_metrics_catalog)
  then show "\<exists>r. fst (list_metrics config backend limit offs (Some []) ctx s) = Inr r
             \<and> metrics r = JList (map JStr (spec_page names limit offs))
             \<and> total_count r = int (length names)"
    using paginate_names[of names limit offs] by simp
next
  assume "fst (get_cached_metrics config backend now s) = Inr (JList (map JStr names))"
  then have "fst (search_metrics config backend now [] limit offs ctx s)
               = paginate (JList (map JStr names)) limit offs"
    by (simp add: search_metrics_catalog spec_filter_empty)
  then show "\<exists>r. fst (search_metrics config backend now [] limit offs ctx s) = Inr r
             \<and> metrics r = JList (map JStr (spec_page names limit offs))
             \<and> total_count r = int (length names)"
    using paginate_names[of names limit offs] by simp
qed

lemma example_page: "spec_page example_catalog (Some 2) 1 = [''go_info'', ''UP_total'']"
  by (simp add: spec_page_def example_catalog_def slice_def slice_bound_def)

lemma example_length: "length example_catalog = 3"
  by (simp add: example_catalog_def)

theorem empty_filter_selects_all_witness:
  "list_metrics example_config (success_reply (JList (map JStr example_catalog)))
       (Some 2) 1 (Some []) False initial_state
     = list_metrics example_config (success_reply (JList (map JStr example_catalog)))
         (Some 2) 1 None False initial_state
   \<and> (\<exists>r. fst (list_metrics example_config (success_reply (JList (map JStr example_catalog)))
              (Some 2) 1 (Some []) False initial_state) = Inr r
        \<and> metrics r = JList (map JStr [''go_info'', ''UP_total'']) \<and> total_count r = 3)
   \<and> (\<exists>r. fst (search_metrics example_config (success_reply (JList (map JStr example_catalog)))
              1000 [] (Some 2) 1 False initial_state) = Inr r
        \<and> metrics r = JList (map JStr [''go_info'', ''UP_total'']) \<and> total_count r = 3)"
  using empty_filter_selects_all [of example_config
          "success_reply (JList (map JStr example_catalog))" "Some 2" 1 False initial_state
          example_catalog 1000]
  by (auto simp add: example_read example_cached example_url example_page example_length)

section \<open>Answers outside the shapes above\<close>

text \<open>What the code does on inputs the statements above leave out: a negative limit counts
  from the end of the list; a range-query payload without \<^verbatim>\<open>resultType\<close> stops the handler
  after the second tick; a catalog payload \<^verbatim>\<open>null\<close> is stored in the cache before \<^verbatim>\<open>len\<close>
  raises; a metadata payload or value \<^verbatim>\<open>null\<close> raises \<^verbatim>\<open>TypeError\<close>.\<close>

lemma negative_limit_counts_from_end:
  "paginate (JList (map JStr example_catalog)) (Some (- 1)) 0 =
     Inr \<lparr>metrics = JList [JStr ''up'', JStr ''go_info''], total_count = 3,
          returned_count = 2, offset = 0, has_more = True\<rparr>"
  by (simp add: paginate_list example_catalog_def slice_def slice_bound_def)

lemma range_query_without_result_type:
  "fst (execute_range_query example_config (success_reply (JObj []))
          ''up'' ''0'' ''60'' ''15s'' True initial_state) = Inl (KeyError ''resultType'')
   \<and> map tick_progress (ticks (snd (execute_range_query example_config (success_reply (JObj []))
          ''up'' ''0'' ''60'' ''15s'' True initial_state))) = [0, 50]"
  by (simp add: execute_range_query_def make_prometheus_request_ticks success_gateway
        make_prometheus_request_snd query_result_of_def and_then_def Let_def
        ticks_report_progress initial_state_def)

lemma null_catalog_overwrites_cache:
  "fst (get_cached_metrics example_config (success_reply JNull) 2000 stale_state) = Inr (JList [])
   \<and> cache_data (snd (get_cached_metrics example_config (success_reply JNull) 2000 stale_state))
       = JNull
   \<and> cache_timestamp (snd (get_cached_metrics example_config (success_reply JNull) 2000 stale_state))
       = 2000"
proof -
  obtain s1 where "make_prometheus_request example_config (success_reply JNull)
      ''label/__name__/values'' None stale_state = (Inr JNull, s1)"
    using success_gateway[of JNull "''label/__name__/values''" None stale_state]
    by (cases "make_prometheus_request example_config (success_reply JNull)
      ''label/__name__/values'' None stale_state") simp
  then show ?thesis
    by (simp add: get_cached_metrics_def cache_valid_def CACHE_TTL_def stale_state_simps
        fetch_fresh_def Let_def)
qed

lemma null_metadata_raises:
  "fst (get_metric_metadata example_config (success_reply JNull) ''up'' initial_state)
     = Inl TypeError
   \<and> fst (get_metric_metadata example_config (success_reply (JObj [(''metadata'', JNull)]))
          ''up'' initial_state) = Inl TypeError"
proof -
  have "fst (get_metric_metadata example_config (success_reply p) ''up'' initial_state) =
      (and_then (py_contains ''metadata'' p) (\<lambda>has_metadata.
           and_then (if has_metadata then py_getitem p ''metadata''
                     else and_then (py_contains ''data'' p) (\<lambda>has_data.
                          if has_data then py_getitem p ''data'' else Inr p)) (\<lambda>metadata.
             let metadata' = (case metadata of JObj kvs \<Rightarrow> JList [metadata] | _ \<Rightarrow> metadata)
             in and_then (py_len metadata') (\<lambda>n. Inr metadata'))))" for p
    using success_gateway[of p "''metadata?metric='' @ ''up''" None initial_state]
    by (cases "make_prometheus_request example_config (success_reply p)
                 (''metadata?metric='' @ ''up'') None initial_state")
       (simp add: get_metric_metadata_def)
  then show ?thesis
    by (simp add: and_then_def)
qed

end
